theory Spec2Isabelle
  imports Main
begin

section \<open>The bug tracker: documents, requests and responses\<close>

text \<open>
  The server is an Express router (\<^verbatim>\<open>server/routes/bugsRouter.js\<close>) over one
  Mongoose model (\<^verbatim>\<open>models/Bug.js\<close>) with a last-resort error middleware
  (\<^verbatim>\<open>server/middleware/errorHandler.js\<close>). Every handler is modelled as a function
  from what it reads (the environment, the request, the collection) to the response it
  sends and the collection it leaves behind. An exception is a value of type
  \<open>jsError\<close> on the left of a sum.

  Strings are HOL strings, and a member of a JSON body is a \<open>string option\<close>:
  \<open>None\<close> is JavaScript's \<^verbatim>\<open>undefined\<close>. A member of a query string is a string, an
  array or an object. Console output is left out.
\<close>

subsection \<open>JavaScript truthiness and the schema's \<^verbatim>\<open>trim\<close> setter\<close>

definition truthy :: "string option \<Rightarrow> bool" where
  "truthy v = (case v of None \<Rightarrow> False | Some s \<Rightarrow> s \<noteq> [])"

text \<open>\<^verbatim>\<open>v || d\<close> on an optional string.\<close>

definition orElse :: "string option \<Rightarrow> string \<Rightarrow> string" where
  "orElse v d = (case v of None \<Rightarrow> d | Some s \<Rightarrow> if s = [] then d else s)"

definition isSpace :: "char \<Rightarrow> bool" where
  "isSpace c = (c \<in> set [CHR 0x09, CHR 0x0A, CHR 0x0B, CHR 0x0C, CHR 0x0D, CHR 0x20, CHR 0xA0])"

definition trim :: "string \<Rightarrow> string" where
  "trim s = rev (dropWhile isSpace (rev (dropWhile isSpace s)))"

subsection \<open>The Bug schema\<close>

record customerInfo =
  c_name :: "string option"
  c_email :: "string option"
  c_id :: "string option"

record comment =
  author :: string
  message :: string
  c_createdAt :: nat

text \<open>An element of \<^verbatim>\<open>statusHistory\<close>: \<^verbatim>\<open>{from, to, by, at, reason}\<close>.\<close>

record historyEntry =
  h_from :: "string option"
  h_to :: string
  h_by :: "string option"
  h_at :: nat
  h_reason :: "string option"

record bug =
  bug_id :: string
  title :: string
  description :: string
  priority :: string
  status :: string
  reportedBy :: string
  assignedTo :: string
  source :: string
  customer :: "customerInfo option"
  comments :: "comment list"
  statusHistory :: "historyEntry list"
  createdAt :: nat
  updatedAt :: nat

text \<open>The collection, in insertion order.\<close>

type_synonym collection = "bug list"

subsection \<open>The request\<close>

text \<open>\<^verbatim>\<open>req.body\<close>: the members some handler reads, or the schema stores.\<close>

record reqBody =
  b_title :: "string option"
  b_description :: "string option"
  b_priority :: "string option"
  b_status :: "string option"
  b_reportedBy :: "string option"
  b_assignedTo :: "string option"
  b_source :: "string option"
  b_customer :: "customerInfo option"
  b_comments :: "comment list option"
  b_statusHistory :: "historyEntry list option"
  b_updatedBy :: "string option"
  b_reason :: "string option"
  b_by :: "string option"
  b_author :: "string option"
  b_message :: "string option"
  b_customerName :: "string option"
  b_customerEmail :: "string option"
  b_customerId :: "string option"

text \<open>
  \<^verbatim>\<open>req.query\<close> of \<^verbatim>\<open>GET /api/bugs\<close>. The query parser gives a member as a string
  (\<^verbatim>\<open>status=Open\<close>), as an array (\<^verbatim>\<open>status=Open&status=Resolved\<close>) or as an object
  (\<^verbatim>\<open>status[$ne]=Open\<close>).
\<close>

datatype qvalue = QString string | QArray "string list" | QObject "(string \<times> string) list"

record reqQuery =
  q_status :: "qvalue option"
  q_priority :: "qvalue option"
  q_source :: "qvalue option"
  q_assignedTo :: "qvalue option"
  q_sortBy :: "qvalue option"
  q_order :: "qvalue option"

text \<open>Truthiness of a member of the query: an array and an object are truthy.\<close>

definition truthyQ :: "qvalue option \<Rightarrow> bool" where
  "truthyQ v = (case v of None \<Rightarrow> False | Some (QString s) \<Rightarrow> s \<noteq> [] | Some w \<Rightarrow> True)"

text \<open>
  The string a value becomes as a property key (\<^verbatim>\<open>sort[sortBy]\<close>): an array is joined
  with commas, an object is \<^verbatim>\<open>[object Object]\<close>.
\<close>

fun commas :: "string list \<Rightarrow> string" where
  "commas [] = []"
| "commas [x] = x"
| "commas (x # xs) = x @ '','' @ commas xs"

definition propertyKey :: "qvalue \<Rightarrow> string" where
  "propertyKey v = (case v of QString s \<Rightarrow> s | QArray xs \<Rightarrow> commas xs
     | QObject kvs \<Rightarrow> ''[object Object]'')"

subsection \<open>Errors and responses\<close>

record jsError =
  e_name :: string
  e_message :: string
  e_code :: "nat option"
  e_statusCode :: "nat option"
  e_errors :: "string list"

definition castError :: jsError where
  "castError = \<lparr>e_name = ''CastError'', e_message = ''Cast to ObjectId failed'',
     e_code = None, e_statusCode = None, e_errors = []\<rparr>"

definition validationError :: "string list \<Rightarrow> jsError" where
  "validationError msgs = \<lparr>e_name = ''ValidationError'', e_message = ''Validation failed'',
     e_code = None, e_statusCode = None, e_errors = msgs\<rparr>"

definition duplicateKeyError :: jsError where
  "duplicateKeyError = \<lparr>e_name = ''MongoServerError'', e_message = ''E11000 duplicate key error'',
     e_code = Some 11000, e_statusCode = None, e_errors = []\<rparr>"

text \<open>An error of the database server with the given message.\<close>

definition serverError :: "string \<Rightarrow> jsError" where
  "serverError msg = \<lparr>e_name = ''MongoServerError'', e_message = msg,
     e_code = None, e_statusCode = None, e_errors = []\<rparr>"

text \<open>\<^verbatim>\<open>new Error(msg)\<close>.\<close>

definition Error :: "string \<Rightarrow> jsError" where
  "Error msg = \<lparr>e_name = ''Error'', e_message = msg,
     e_code = None, e_statusCode = None, e_errors = []\<rparr>"

text \<open>\<^verbatim>\<open>new ApiError(message, statusCode)\<close>.\<close>

definition ApiError :: "string \<Rightarrow> nat \<Rightarrow> jsError" where
  "ApiError msg sc = \<lparr>e_name = ''Error'', e_message = msg,
     e_code = None, e_statusCode = Some sc, e_errors = []\<rparr>"

datatype resData = NoData | BugData bug | BugList "bug list" | CommentData comment

text \<open>\<^verbatim>\<open>res.status(statusCode).json({success, data, message, error, count, errors})\<close>.\<close>

record response =
  statusCode :: nat
  success :: bool
  data :: resData
  res_message :: "string option"
  res_error :: "string option"
  res_count :: "nat option"
  res_errors :: "string list"

definition failure :: "nat \<Rightarrow> string \<Rightarrow> response" where
  "failure sc msg = \<lparr>statusCode = sc, success = False, data = NoData,
     res_message = Some msg, res_error = None, res_count = None, res_errors = []\<rparr>"

definition ok :: "nat \<Rightarrow> resData \<Rightarrow> string option \<Rightarrow> response" where
  "ok sc d msg = \<lparr>statusCode = sc, success = True, data = d,
     res_message = msg, res_error = None, res_count = None, res_errors = []\<rparr>"

text \<open>\<^verbatim>\<open>Object.values(err.errors).map(val => val.message).join(', ')\<close>.\<close>

fun join :: "string list \<Rightarrow> string" where
  "join [] = []"
| "join [m] = m"
| "join (m # ms) = m @ '', '' @ join ms"

text \<open>
  \<^verbatim>\<open>errorHandler\<close> of the middleware: the branches are tried in the source's order and a
  later one overwrites an earlier one. A status code of 0 or an empty message is falsy
  and gives the default. The stack trace added in development mode is left out.
\<close>

definition errorHandler :: "jsError \<Rightarrow> response" where
  "errorHandler err =
    (let error0 = err;
         error1 = (if e_name err = ''CastError'' then ApiError ''Resource not found'' 404 else error0);
         error2 = (if e_code err = Some 11000 then ApiError ''Duplicate field value entered'' 400 else error1);
         error3 = (if e_name err = ''ValidationError'' then ApiError (join (e_errors err)) 400 else error2);
         error4 = (if e_name err = ''JsonWebTokenError'' then ApiError ''Invalid token'' 401 else error3);
         error5 = (if e_name err = ''TokenExpiredError'' then ApiError ''Token expired'' 401 else error4);
         sc = (case e_statusCode error5 of None \<Rightarrow> 500 | Some c \<Rightarrow> if c = 0 then 500 else c);
         msg = (if e_message error5 = [] then ''Server Error'' else e_message error5)
     in \<lparr>statusCode = sc, success = False, data = NoData,
         res_message = None, res_error = Some msg, res_count = None, res_errors = []\<rparr>)"

subsection \<open>What a handler reads from outside the request\<close>

text \<open>
  \<open>now\<close> is \<^verbatim>\<open>Date.now()\<close> and \<open>newObjectId\<close> the identifier the driver generates for
  a new document. \<open>castObjectId\<close> is the driver's cast of a request parameter to an
  identifier, in the spelling in which identifiers are stored; it is \<open>None\<close> where the
  driver raises \<^verbatim>\<open>CastError\<close>. \<open>structuredCondition\<close> is what the database makes of a
  filter value that is no string: an error, or the condition on the stored value.
  \<open>refusedSort\<close> is the error of the database for a sort path it refuses.
  \<open>SLACK_WEBHOOK_URL\<close> is the environment variable and \<open>axios_post\<close> the outcome of the
  outbound request: \<open>True\<close> when the promise resolves, \<open>False\<close> when it rejects.
\<close>

record env =
  now :: nat
  newObjectId :: string
  castObjectId :: "string \<Rightarrow> string option"
  structuredCondition :: "qvalue \<Rightarrow> jsError + (string \<Rightarrow> bool)"
  refusedSort :: "string \<Rightarrow> jsError option"
  SLACK_WEBHOOK_URL :: "string option"
  axios_post :: "string \<Rightarrow> string \<Rightarrow> bool"

subsection \<open>Schema validation\<close>

text \<open>
  One message for each path, from its first failing validator, as Mongoose reports them.
  The messages are the schema's own where it gives one.
\<close>

definition requiredMax :: "string \<Rightarrow> string \<Rightarrow> nat \<Rightarrow> string \<Rightarrow> string list" where
  "requiredMax v req n mx =
     (if v = [] then [req] else if n < length v then [mx] else [])"

definition requiredEnum :: "string \<Rightarrow> string \<Rightarrow> string list \<Rightarrow> string \<Rightarrow> string list" where
  "requiredEnum v req vs en =
     (if v = [] then [req] else if v \<notin> set vs then [en] else [])"

definition validTitle :: "string \<Rightarrow> string list" where
  "validTitle v = requiredMax v ''Bug title is required'' 100 ''Title cannot exceed 100 characters''"

definition validDescription :: "string \<Rightarrow> string list" where
  "validDescription v =
     requiredMax v ''Bug description is required'' 1000 ''Description cannot exceed 1000 characters''"

definition validPriority :: "string \<Rightarrow> string list" where
  "validPriority v = requiredEnum v ''Priority is required'' [''Low'', ''Medium'', ''High'']
     ''Priority must be Low, Medium, or High''"

definition validStatus :: "string \<Rightarrow> string list" where
  "validStatus v = requiredEnum v ''Status is required'' [''Open'', ''In Progress'', ''Resolved'']
     ''Status must be Open, In Progress, or Resolved''"

definition validReportedBy :: "string \<Rightarrow> string list" where
  "validReportedBy v =
     requiredMax v ''Reporter name is required'' 50 ''Reporter name cannot exceed 50 characters''"

definition validSource :: "string \<Rightarrow> string list" where
  "validSource v = (if v \<notin> set [''internal'', ''customer'']
     then [''Source must be internal or customer''] else [])"

definition validComment :: "comment \<Rightarrow> string list" where
  "validComment c =
     (if author c = [] then [''Path `author` is required.''] else []) @
     requiredMax (message c) ''Path `message` is required.'' 2000
       ''Path `message` is longer than the maximum allowed length (2000).''"

definition validHistoryEntry :: "historyEntry \<Rightarrow> string list" where
  "validHistoryEntry h =
     (if h_to h = [] then [''Path `to` is required.''] else []) @
     (case h_reason h of None \<Rightarrow> []
      | Some r \<Rightarrow> if 500 < length r
          then [''Path `reason` is longer than the maximum allowed length (500).''] else [])"

definition validate :: "bug \<Rightarrow> string list" where
  "validate b =
     validTitle (title b) @ validDescription (description b) @ validPriority (priority b) @
     validStatus (status b) @ validReportedBy (reportedBy b) @ validSource (source b) @
     concat (map validComment (comments b)) @
     concat (map validHistoryEntry (statusHistory b))"

subsection \<open>The model's queries and writes\<close>

text \<open>
  Mongoose and the database driver are libraries, not code of the repository. Their
  operations are modelled as far as the handlers use them: a request parameter is cast
  to an identifier before it is compared, a document is validated as a whole before it is written (Mongoose validates
  the required and the modified paths, which comes to the same for a document that was
  valid when it was read), setters run when a path is set, and the identifiers of
  subdocuments are left out.
\<close>

text \<open>
  \<^verbatim>\<open>Bug.findById(id)\<close>: the parameter is cast to an identifier, and the document with
  that identifier is looked up.
\<close>

definition findById :: "env \<Rightarrow> string \<Rightarrow> collection \<Rightarrow> jsError + bug option" where
  "findById e i docs =
     (case castObjectId e i of
        None \<Rightarrow> Inl castError
      | Some oid \<Rightarrow> Inr (find (\<lambda>b. bug_id b = oid) docs))"

text \<open>
  \<^verbatim>\<open>doc.save()\<close> of a new document: validation, then the insert, which the unique
  index on \<^verbatim>\<open>_id\<close> refuses for an identifier already there.
\<close>

definition insertDoc :: "env \<Rightarrow> bug \<Rightarrow> collection \<Rightarrow> jsError + bug \<times> collection" where
  "insertDoc e doc docs =
     (case validate doc of
        [] \<Rightarrow> if bug_id doc \<in> set (map bug_id docs) then Inl duplicateKeyError
              else Inr (doc, docs @ [doc])
      | m # ms \<Rightarrow> Inl (validationError (m # ms)))"

text \<open>
  \<^verbatim>\<open>doc.save()\<close> of a document read from the collection: validation, then the stored
  document is replaced; \<^verbatim>\<open>timestamps: true\<close> sets \<^verbatim>\<open>updatedAt\<close>.
\<close>

definition save :: "env \<Rightarrow> bug \<Rightarrow> collection \<Rightarrow> jsError + bug \<times> collection" where
  "save e doc docs =
     (case validate doc of
        [] \<Rightarrow> (let d = doc\<lparr>updatedAt := now e\<rparr>
               in Inr (d, map (\<lambda>b. if bug_id b = bug_id d then d else b) docs))
      | m # ms \<Rightarrow> Inl (validationError (m # ms)))"

definition trimOpt :: "string option \<Rightarrow> string option" where
  "trimOpt v = map_option trim v"

definition trimCustomer :: "customerInfo \<Rightarrow> customerInfo" where
  "trimCustomer c = \<lparr>c_name = trimOpt (c_name c), c_email = trimOpt (c_email c), c_id = trimOpt (c_id c)\<rparr>"

definition castComment :: "comment \<Rightarrow> comment" where
  "castComment c = c\<lparr>author := trim (author c), message := trim (message c)\<rparr>"

definition castHistoryEntry :: "historyEntry \<Rightarrow> historyEntry" where
  "castHistoryEntry h = h\<lparr>h_by := trimOpt (h_by h), h_reason := trimOpt (h_reason h)\<rparr>"

text \<open>
  \<^verbatim>\<open>doc.set(updateData)\<close>: every member of the body that is a path of the schema
  overwrites the document's value, through the path's setter. \<^verbatim>\<open>updatedBy\<close> and the
  other members that are no path of the schema are dropped.
\<close>

definition setOpt :: "'a option \<Rightarrow> 'a \<Rightarrow> 'a" where
  "setOpt v old = (case v of None \<Rightarrow> old | Some x \<Rightarrow> x)"

definition doc_set :: "reqBody \<Rightarrow> bug \<Rightarrow> bug" where
  "doc_set u b = b\<lparr>
     title := setOpt (trimOpt (b_title u)) (title b),
     description := setOpt (trimOpt (b_description u)) (description b),
     priority := setOpt (b_priority u) (priority b),
     status := setOpt (b_status u) (status b),
     reportedBy := setOpt (trimOpt (b_reportedBy u)) (reportedBy b),
     assignedTo := setOpt (trimOpt (b_assignedTo u)) (assignedTo b),
     source := setOpt (b_source u) (source b),
     customer := (case b_customer u of None \<Rightarrow> customer b | Some c \<Rightarrow> Some (trimCustomer c)),
     comments := setOpt (map_option (map castComment) (b_comments u)) (comments b),
     statusHistory := setOpt (map_option (map castHistoryEntry) (b_statusHistory u)) (statusHistory b)\<rparr>"

text \<open>The update validators (\<^verbatim>\<open>runValidators: true\<close>) look at the paths being set only.\<close>

definition onSet :: "'a option \<Rightarrow> ('a \<Rightarrow> string list) \<Rightarrow> string list" where
  "onSet v f = (case v of None \<Rightarrow> [] | Some x \<Rightarrow> f x)"

definition validateUpdate :: "reqBody \<Rightarrow> string list" where
  "validateUpdate u =
     onSet (trimOpt (b_title u)) validTitle @
     onSet (trimOpt (b_description u)) validDescription @
     onSet (b_priority u) validPriority @
     onSet (b_status u) validStatus @
     onSet (trimOpt (b_reportedBy u)) validReportedBy @
     onSet (b_source u) validSource @
     onSet (map_option (map castComment) (b_comments u)) (\<lambda>cs. concat (map validComment cs)) @
     onSet (map_option (map castHistoryEntry) (b_statusHistory u))
       (\<lambda>hs. concat (map validHistoryEntry hs))"

text \<open>\<^verbatim>\<open>Bug.findByIdAndUpdate(id, updateData, { new: true, runValidators: true })\<close>.\<close>

definition findByIdAndUpdate ::
  "env \<Rightarrow> string \<Rightarrow> reqBody \<Rightarrow> collection \<Rightarrow> jsError + bug option \<times> collection" where
  "findByIdAndUpdate e i u docs =
     (case castObjectId e i of
        None \<Rightarrow> Inl castError
      | Some oid \<Rightarrow>
         (case validateUpdate u of
            m # ms \<Rightarrow> Inl (validationError (m # ms))
          | [] \<Rightarrow> (case find (\<lambda>b. bug_id b = oid) docs of
              None \<Rightarrow> Inr (None, docs)
            | Some b \<Rightarrow> (let d = (doc_set u b)\<lparr>updatedAt := now e\<rparr>
                         in Inr (Some d, map (\<lambda>x. if bug_id x = oid then d else x) docs)))))"

text \<open>\<^verbatim>\<open>Bug.findByIdAndDelete(id)\<close>.\<close>

definition findByIdAndDelete :: "env \<Rightarrow> string \<Rightarrow> collection \<Rightarrow> jsError + bug option \<times> collection" where
  "findByIdAndDelete e i docs =
     (case castObjectId e i of
        None \<Rightarrow> Inl castError
      | Some oid \<Rightarrow>
         (case find (\<lambda>b. bug_id b = oid) docs of
            None \<Rightarrow> Inr (None, docs)
          | Some b \<Rightarrow> Inr (Some b, filter (\<lambda>x. bug_id x \<noteq> oid) docs)))"

subsection \<open>Constructing a document\<close>

definition emptyBody :: reqBody where
  "emptyBody = \<lparr>b_title = None, b_description = None, b_priority = None, b_status = None,
     b_reportedBy = None, b_assignedTo = None, b_source = None, b_customer = None,
     b_comments = None, b_statusHistory = None, b_updatedBy = None, b_reason = None,
     b_by = None, b_author = None, b_message = None, b_customerName = None,
     b_customerEmail = None, b_customerId = None\<rparr>"

text \<open>The schema's defaults, for the paths the constructor's argument leaves undefined.\<close>

definition schemaDefaults :: "env \<Rightarrow> bug" where
  "schemaDefaults e = \<lparr>bug_id = newObjectId e, title = [], description = [],
     priority = ''Medium'', status = ''Open'', reportedBy = [], assignedTo = [],
     source = ''internal'', customer = None, comments = [], statusHistory = [],
     createdAt = now e, updatedAt = now e\<rparr>"

text \<open>\<^verbatim>\<open>new Bug(obj)\<close>: the defaults, overwritten by the members of \<^verbatim>\<open>obj\<close>.\<close>

definition Bug :: "env \<Rightarrow> reqBody \<Rightarrow> bug" where
  "Bug e obj = doc_set obj (schemaDefaults e)"

subsection \<open>The outbound notification\<close>

text \<open>
  What became of the webhook: it is not configured, or the request was sent and the
  promise resolved, or it rejected and the \<^verbatim>\<open>catch\<close> block logged it.
\<close>

datatype slack = NotConfigured | Delivered string string | FailureLogged string string

definition notifySlack :: "env \<Rightarrow> string \<Rightarrow> slack" where
  "notifySlack e txt =
     (if truthy (SLACK_WEBHOOK_URL e)
      then (let url = orElse (SLACK_WEBHOOK_URL e) []
            in if axios_post e url txt then Delivered url txt else FailureLogged url txt)
      else NotConfigured)"

text \<open>The two message templates; their pictographs are left out.\<close>

definition newBugText :: "bug \<Rightarrow> string" where
  "newBugText savedBug =
     ''New Bug: *'' @ title savedBug @ ''*'' @ [CHR 0x0A] @
     ''Priority: '' @ priority savedBug @ [CHR 0x0A] @
     ''Reported by: '' @ reportedBy savedBug @ [CHR 0x0A] @
     ''Source: '' @ source savedBug @
     (if assignedTo savedBug \<noteq> [] then [CHR 0x0A] @ ''Assigned to: '' @ assignedTo savedBug else [])"

definition feedbackText :: "bug \<Rightarrow> string \<Rightarrow> string option \<Rightarrow> string" where
  "feedbackText saved customerName customerEmail =
     ''Customer Feedback -> Bug'' @ [CHR 0x0A] @ ''*'' @ title saved @ ''*'' @ [CHR 0x0A] @
     ''Priority: '' @ priority saved @ [CHR 0x0A] @
     ''Customer: '' @ customerName @ '' ('' @ orElse customerEmail ''n/a'' @ '')''"

section \<open>The handlers of the router\<close>

subsection \<open>\<^verbatim>\<open>POST /api/bugs\<close>\<close>

definition post_bugs :: "env \<Rightarrow> reqBody \<Rightarrow> collection \<Rightarrow> response \<times> collection \<times> slack" where
  "post_bugs e body docs =
     (if \<not> truthy (b_title body) \<or> \<not> truthy (b_description body) \<or> \<not> truthy (b_reportedBy body)
      then (failure 400 ''Title, description, and reportedBy are required fields'', docs, NotConfigured)
      else
        (let newBug = Bug e (emptyBody\<lparr>
               b_title := b_title body,
               b_description := b_description body,
               b_priority := Some (orElse (b_priority body) ''Medium''),
               b_reportedBy := b_reportedBy body,
               b_assignedTo := Some (orElse (b_assignedTo body) []),
               b_source := Some (orElse (b_source body) ''internal''),
               b_customer := (if b_source body = Some ''customer''
                  then Some (case b_customer body of
                               None \<Rightarrow> \<lparr>c_name = None, c_email = None, c_id = None\<rparr>
                             | Some c \<Rightarrow> c)
                  else None)\<rparr>)
         in case insertDoc e newBug docs of
              Inl error \<Rightarrow> (errorHandler error, docs, NotConfigured)
            | Inr (savedBug, docs') \<Rightarrow>
                (ok 201 (BugData savedBug) (Some ''Bug created successfully''), docs',
                 notifySlack e (newBugText savedBug))))"

subsection \<open>\<^verbatim>\<open>GET /api/bugs\<close>\<close>

text \<open>
  The filter object holds \<^verbatim>\<open>status\<close> and \<^verbatim>\<open>priority\<close> when the query gives them a
  truthy value. \<^verbatim>\<open>Bug.find(filter)\<close> turns each value it holds into a condition on
  the path: a string into equality, any other value into what the database makes of
  it, which may be an error. It keeps the documents that meet every condition.
\<close>

record bugFilter =
  f_status :: "qvalue option"
  f_priority :: "qvalue option"

definition condition :: "env \<Rightarrow> qvalue option \<Rightarrow> jsError + (string \<Rightarrow> bool)" where
  "condition e v =
     (case v of
        None \<Rightarrow> Inr (\<lambda>x. True)
      | Some (QString s) \<Rightarrow> Inr (\<lambda>x. x = s)
      | Some w \<Rightarrow> structuredCondition e w)"

definition Bug_find :: "env \<Rightarrow> bugFilter \<Rightarrow> collection \<Rightarrow> jsError + bug list" where
  "Bug_find e f docs =
     (case condition e (f_status f) of
        Inl error \<Rightarrow> Inl error
      | Inr onStatus \<Rightarrow>
         (case condition e (f_priority f) of
            Inl error \<Rightarrow> Inl error
          | Inr onPriority \<Rightarrow>
              Inr (filter (\<lambda>b. onStatus (status b) \<and> onPriority (priority b)) docs)))"

text \<open>
  \<^verbatim>\<open>.sort({[sortBy]: order === 'desc' ? -1 : 1})\<close>: the documents are compared on the
  value of one path, strings by their code units, any other path as null on every
  document. Documents that compare equal keep the collection's order. The database
  refuses the empty path (the text of its message is the server's; only its being a
  server error matters here), and the paths for which \<open>refusedSort\<close> gives an error.
\<close>

datatype sortKey = KNull | KNum nat | KStr string

definition sortKeyOf :: "string \<Rightarrow> bug \<Rightarrow> sortKey" where
  "sortKeyOf field b =
     (if field = ''_id'' then KStr (bug_id b)
      else if field = ''title'' then KStr (title b)
      else if field = ''description'' then KStr (description b)
      else if field = ''priority'' then KStr (priority b)
      else if field = ''status'' then KStr (status b)
      else if field = ''reportedBy'' then KStr (reportedBy b)
      else if field = ''assignedTo'' then KStr (assignedTo b)
      else if field = ''source'' then KStr (source b)
      else if field = ''createdAt'' then KNum (createdAt b)
      else if field = ''updatedAt'' then KNum (updatedAt b)
      else if field = ''customer.name''
        then (case customer b of None \<Rightarrow> KNull
              | Some c \<Rightarrow> (case c_name c of None \<Rightarrow> KNull | Some n \<Rightarrow> KStr n))
      else if field = ''customer.email''
        then (case customer b of None \<Rightarrow> KNull
              | Some c \<Rightarrow> (case c_email c of None \<Rightarrow> KNull | Some n \<Rightarrow> KStr n))
      else if field = ''customer.id''
        then (case customer b of None \<Rightarrow> KNull
              | Some c \<Rightarrow> (case c_id c of None \<Rightarrow> KNull | Some n \<Rightarrow> KStr n))
      else KNull)"

fun lexLe :: "string \<Rightarrow> string \<Rightarrow> bool" where
  "lexLe [] ys = True"
| "lexLe (x # xs) [] = False"
| "lexLe (x # xs) (y # ys) =
     ((of_char x :: nat) < of_char y \<or> (x = y \<and> lexLe xs ys))"

fun keyLe :: "sortKey \<Rightarrow> sortKey \<Rightarrow> bool" where
  "keyLe KNull k = True"
| "keyLe (KNum a) KNull = False"
| "keyLe (KNum a) (KNum b) = (a \<le> b)"
| "keyLe (KNum a) (KStr t) = True"
| "keyLe (KStr s) (KStr t) = lexLe s t"
| "keyLe (KStr s) k = False"

fun insertBy :: "('a \<Rightarrow> 'a \<Rightarrow> bool) \<Rightarrow> 'a \<Rightarrow> 'a list \<Rightarrow> 'a list" where
  "insertBy le x [] = [x]"
| "insertBy le x (y # ys) = (if le x y then x # y # ys else y # insertBy le x ys)"

definition sortDocs :: "string \<Rightarrow> bool \<Rightarrow> bug list \<Rightarrow> bug list" where
  "sortDocs field desc docs =
     foldr (insertBy (\<lambda>a b. if desc then keyLe (sortKeyOf field b) (sortKeyOf field a)
                             else keyLe (sortKeyOf field a) (sortKeyOf field b))) docs []"

definition sortError :: "env \<Rightarrow> string \<Rightarrow> jsError option" where
  "sortError e field =
     (if field = [] then Some (serverError ''FieldPath cannot be constructed with empty string'')
      else refusedSort e field)"

text \<open>
  The handler. \<^verbatim>\<open>sortBy\<close> and \<^verbatim>\<open>order\<close> take their defaults when the query does not
  have them. An exception of the query goes to \<^verbatim>\<open>next(error)\<close>, that is to
  \<open>errorHandler\<close>. The members \<^verbatim>\<open>source\<close> and \<^verbatim>\<open>assignedTo\<close> of the query are not read.
\<close>

definition get_bugs :: "env \<Rightarrow> reqQuery \<Rightarrow> collection \<Rightarrow> response" where
  "get_bugs e q docs =
     (let sortBy = (case q_sortBy q of None \<Rightarrow> ''createdAt'' | Some v \<Rightarrow> propertyKey v);
          desc = (case q_order q of None \<Rightarrow> True | Some v \<Rightarrow> v = QString ''desc'');
          f = \<lparr>f_status = (if truthyQ (q_status q) then q_status q else None),
               f_priority = (if truthyQ (q_priority q) then q_priority q else None)\<rparr>
      in case Bug_find e f docs of
           Inl error \<Rightarrow> errorHandler error
         | Inr found \<Rightarrow>
            (case sortError e sortBy of
               Some error \<Rightarrow> errorHandler error
             | None \<Rightarrow>
                (let bugs = sortDocs sortBy desc found
                 in \<lparr>statusCode = 200, success = True, data = BugList bugs,
                     res_message = None, res_error = None, res_count = Some (length bugs),
                     res_errors = []\<rparr>)))"

subsection \<open>\<^verbatim>\<open>GET /api/bugs/:id\<close>\<close>

definition get_bug :: "env \<Rightarrow> string \<Rightarrow> collection \<Rightarrow> response" where
  "get_bug e i docs =
     (case findById e i docs of
        Inl error \<Rightarrow>
          if e_name error = ''CastError'' then failure 400 ''Invalid bug ID format''
          else errorHandler error
      | Inr None \<Rightarrow> failure 404 ''Bug not found''
      | Inr (Some b) \<Rightarrow> ok 200 (BugData b) None)"

subsection \<open>\<^verbatim>\<open>PUT /api/bugs/:id\<close>\<close>

text \<open>The \<^verbatim>\<open>catch\<close> block of the handler.\<close>

definition put_catch :: "jsError \<Rightarrow> response" where
  "put_catch error =
     (if e_name error = ''CastError'' then failure 400 ''Invalid bug ID format''
      else if e_name error = ''ValidationError''
        then (failure 400 ''Validation error'')\<lparr>res_errors := e_errors error\<rparr>
      else errorHandler error)"

definition put_bug :: "env \<Rightarrow> string \<Rightarrow> reqBody \<Rightarrow> collection \<Rightarrow> response \<times> collection" where
  "put_bug e i updateData docs =
     (case findById e i docs of
        Inl error \<Rightarrow> (put_catch error, docs)
      | Inr None \<Rightarrow> (failure 404 ''Bug not found'', docs)
      | Inr (Some existing) \<Rightarrow>
          if truthy (b_status updateData) \<and> b_status updateData \<noteq> Some (status existing)
          then
            (let pushed = existing\<lparr>statusHistory := statusHistory existing @
                   [castHistoryEntry \<lparr>h_from = Some (status existing),
                      h_to = orElse (b_status updateData) [],
                      h_by = Some (orElse (b_updatedBy updateData) ''system''),
                      h_at = now e, h_reason = None\<rparr>]\<rparr>
             in case save e (doc_set updateData pushed) docs of
                  Inl error \<Rightarrow> (put_catch error, docs)
                | Inr (saved, docs') \<Rightarrow>
                    (ok 200 (BugData saved) (Some ''Bug updated successfully''), docs'))
          else
            (case findByIdAndUpdate e i updateData docs of
               Inl error \<Rightarrow> (put_catch error, docs)
             | Inr (None, docs') \<Rightarrow> (failure 404 ''Bug not found'', docs')
             | Inr (Some updatedBug, docs') \<Rightarrow>
                 (ok 200 (BugData updatedBug) (Some ''Bug updated successfully''), docs')))"

subsection \<open>\<^verbatim>\<open>DELETE /api/bugs/:id\<close>\<close>

definition delete_bug :: "env \<Rightarrow> string \<Rightarrow> collection \<Rightarrow> response \<times> collection" where
  "delete_bug e i docs =
     (case findByIdAndDelete e i docs of
        Inl error \<Rightarrow>
          (if e_name error = ''CastError'' then failure 400 ''Invalid bug ID format''
           else errorHandler error, docs)
      | Inr (None, docs') \<Rightarrow> (failure 404 ''Bug not found'', docs')
      | Inr (Some deletedBug, docs') \<Rightarrow>
          (ok 200 (BugData deletedBug) (Some ''Bug deleted successfully''), docs'))"

subsection \<open>\<^verbatim>\<open>PATCH /api/bugs/:id/status\<close>\<close>

text \<open>
  \<^verbatim>\<open>bugSchema.methods.updateStatus\<close>: the check of the value, the three assignments
  (the last one the push onto the history) and \<^verbatim>\<open>this.save()\<close>.
\<close>

definition updateStatus :: "env \<Rightarrow> string \<Rightarrow> bug \<Rightarrow> collection \<Rightarrow> jsError + bug \<times> collection" where
  "updateStatus e newStatus this docs =
     (if newStatus \<notin> set [''Open'', ''In Progress'', ''Resolved'']
      then Inl (Error ''Invalid status value'')
      else
        (let previousStatus = status this;
             this' = this\<lparr>status := newStatus, updatedAt := now e,
               statusHistory := statusHistory this @
                 [castHistoryEntry \<lparr>h_from = Some previousStatus, h_to = newStatus,
                    h_by = Some ''system'', h_at = now e, h_reason = None\<rparr>]\<rparr>
         in save e this' docs))"

text \<open>
  The handler: after \<^verbatim>\<open>updateStatus\<close> has saved, it pushes an entry of its own, with
  \<^verbatim>\<open>previousStatus\<close> read before the call, and saves again. An exception goes to
  \<^verbatim>\<open>next(error)\<close>, that is to \<open>errorHandler\<close>; what was saved before it stays saved.
\<close>

definition patch_status :: "env \<Rightarrow> string \<Rightarrow> reqBody \<Rightarrow> collection \<Rightarrow> response \<times> collection" where
  "patch_status e i body docs =
     (if \<not> truthy (b_status body) then (failure 400 ''Status is required'', docs)
      else case findById e i docs of
        Inl error \<Rightarrow> (errorHandler error, docs)
      | Inr None \<Rightarrow> (failure 404 ''Bug not found'', docs)
      | Inr (Some bug) \<Rightarrow>
          (let status' = orElse (b_status body) [];
               previousStatus = status bug
           in case updateStatus e status' bug docs of
                Inl error \<Rightarrow> (errorHandler error, docs)
              | Inr (bug1, docs1) \<Rightarrow>
                  (let bug2 = bug1\<lparr>statusHistory := statusHistory bug1 @
                         [castHistoryEntry \<lparr>h_from = Some previousStatus, h_to = status',
                            h_by = Some (orElse (b_by body) ''system''),
                            h_at = now e, h_reason = b_reason body\<rparr>]\<rparr>
                   in case save e bug2 docs1 of
                        Inl error \<Rightarrow> (errorHandler error, docs1)
                      | Inr (bug3, docs2) \<Rightarrow>
                          (ok 200 (BugData bug3) (Some ''Bug status updated successfully''), docs2))))"

subsection \<open>\<^verbatim>\<open>POST /api/bugs/:id/comments\<close>\<close>

definition addComment :: "env \<Rightarrow> string \<Rightarrow> string \<Rightarrow> bug \<Rightarrow> collection \<Rightarrow> jsError + bug \<times> collection" where
  "addComment e author' message' this docs =
     save e (this\<lparr>comments := comments this @
                [castComment \<lparr>author = author', message = message', c_createdAt = now e\<rparr>],
              updatedAt := now e\<rparr>) docs"

definition post_comment :: "env \<Rightarrow> string \<Rightarrow> reqBody \<Rightarrow> collection \<Rightarrow> response \<times> collection" where
  "post_comment e i body docs =
     (if \<not> truthy (b_author body) \<or> \<not> truthy (b_message body)
      then (failure 400 ''author and message are required'', docs)
      else case findById e i docs of
        Inl error \<Rightarrow> (errorHandler error, docs)
      | Inr None \<Rightarrow> (failure 404 ''Bug not found'', docs)
      | Inr (Some bug) \<Rightarrow>
          (case addComment e (orElse (b_author body) []) (orElse (b_message body) []) bug docs of
             Inl error \<Rightarrow> (errorHandler error, docs)
           | Inr (bug', docs') \<Rightarrow>
               (ok 201 (case rev (comments bug') of [] \<Rightarrow> NoData | c # cs \<Rightarrow> CommentData c)
                  (Some ''Comment added''), docs')))"

subsection \<open>\<^verbatim>\<open>POST /api/bugs/feedback\<close>\<close>

definition post_feedback :: "env \<Rightarrow> reqBody \<Rightarrow> collection \<Rightarrow> response \<times> collection \<times> slack" where
  "post_feedback e body docs =
     (if \<not> truthy (b_title body) \<or> \<not> truthy (b_description body) \<or> \<not> truthy (b_customerName body)
      then (failure 400 ''title, description, and customerName are required'', docs, NotConfigured)
      else
        (let bug = Bug e (emptyBody\<lparr>
               b_title := b_title body,
               b_description := b_description body,
               b_priority := Some (orElse (b_priority body) ''Medium''),
               b_reportedBy := b_customerName body,
               b_source := Some ''customer'',
               b_customer := Some \<lparr>c_name = b_customerName body,
                  c_email = b_customerEmail body, c_id = b_customerId body\<rparr>\<rparr>)
         in case insertDoc e bug docs of
              Inl error \<Rightarrow> (errorHandler error, docs, NotConfigured)
            | Inr (saved, docs') \<Rightarrow>
                (ok 201 (BugData saved) (Some ''Feedback captured as bug''), docs',
                 notifySlack e (feedbackText saved (orElse (b_customerName body) [])
                    (b_customerEmail body)))))"

section \<open>A concrete environment, request and collection\<close>

text \<open>
  Identifiers of 24 hexadecimal digits, stored in lower case; a database that knows the
  operator \<^verbatim>\<open>$ne\<close> and refuses no sort path but the empty one; the requests of the
  integration tests, and the documents that the two creating routes store for them.
  The webhook is configured and fails.
\<close>

definition isHexDigit :: "char \<Rightarrow> bool" where
  "isHexDigit c = (c \<in> set ''0123456789abcdefABCDEF'')"

definition lowerHex :: "char \<Rightarrow> char" where
  "lowerHex c =
     (if c = CHR ''A'' then CHR ''a'' else if c = CHR ''B'' then CHR ''b''
      else if c = CHR ''C'' then CHR ''c'' else if c = CHR ''D'' then CHR ''d''
      else if c = CHR ''E'' then CHR ''e'' else if c = CHR ''F'' then CHR ''f'' else c)"

definition hex24 :: "string \<Rightarrow> string option" where
  "hex24 s = (if length s = 24 \<and> list_all isHexDigit s then Some (map lowerHex s) else None)"

definition testCondition :: "qvalue \<Rightarrow> jsError + (string \<Rightarrow> bool)" where
  "testCondition v =
     (case v of
        QObject [(k, w)] \<Rightarrow>
          if k = ''$ne'' then Inr (\<lambda>x. x \<noteq> w)
          else Inl (serverError ''unknown operator'')
      | _ \<Rightarrow> Inl (serverError ''unknown operator''))"

definition testEnv :: env where
  "testEnv = \<lparr>now = 1000, newObjectId = ''507f1f77bcf86cd799439011'', castObjectId = hex24,
     structuredCondition = testCondition, refusedSort = (\<lambda>field. None),
     SLACK_WEBHOOK_URL = Some ''https://hooks.slack.test/services/T0'',
     axios_post = (\<lambda>url txt. False)\<rparr>"

definition sampleBug :: reqBody where
  "sampleBug = emptyBody\<lparr>b_title := Some ''Test Bug'',
     b_description := Some ''This is a test bug for integration testing'',
     b_priority := Some ''Medium'', b_reportedBy := Some ''Test User''\<rparr>"

definition testBug :: bug where
  "testBug = \<lparr>bug_id = ''507f1f77bcf86cd799439011'', title = ''Test Bug'',
     description = ''This is a test bug for integration testing'', priority = ''Medium'',
     status = ''Open'', reportedBy = ''Test User'', assignedTo = [], source = ''internal'',
     customer = None, comments = [], statusHistory = [], createdAt = 1000, updatedAt = 1000\<rparr>"

definition emptyQuery :: reqQuery where
  "emptyQuery = \<lparr>q_status = None, q_priority = None, q_source = None, q_assignedTo = None,
     q_sortBy = None, q_order = None\<rparr>"

definition updatedBug :: reqBody where
  "updatedBug = emptyBody\<lparr>b_title := Some ''Updated Test Bug'',
     b_description := Some ''This is an updated test bug'',
     b_priority := Some ''High'', b_status := Some ''In Progress''\<rparr>"

definition sampleFeedback :: reqBody where
  "sampleFeedback = emptyBody\<lparr>b_title := Some ''Cannot log in'',
     b_description := Some ''The login button does nothing'',
     b_customerName := Some ''Jane'', b_customerEmail := Some ''jane@example.com''\<rparr>"

definition feedbackBug :: bug where
  "feedbackBug = \<lparr>bug_id = ''507f1f77bcf86cd799439011'', title = ''Cannot log in'',
     description = ''The login button does nothing'', priority = ''Medium'',
     status = ''Open'', reportedBy = ''Jane'', assignedTo = [], source = ''customer'',
     customer = Some \<lparr>c_name = Some ''Jane'', c_email = Some ''jane@example.com'',
       c_id = None\<rparr>,
     comments = [], statusHistory = [], createdAt = 1000, updatedAt = 1000\<rparr>"

section \<open>Facts about the collection and about validation\<close>

lemmas valid_defs = validate_def validTitle_def validDescription_def validPriority_def
  validStatus_def validReportedBy_def validSource_def validComment_def validHistoryEntry_def
  requiredMax_def requiredEnum_def

lemma find_id:
  "find (\<lambda>b. bug_id b = i) docs = Some b \<Longrightarrow> bug_id b = i \<and> b \<in> set docs"
  by (induction docs) (auto split: if_splits)

lemma find_replace:
  assumes "find (\<lambda>b. bug_id b = i) docs = Some b" and "bug_id d = i"
  shows "find (\<lambda>b. bug_id b = i) (map (\<lambda>x. if bug_id x = i then d else x) docs) = Some d"
  using assms(1)
proof (induction docs)
  case Nil
  then show ?case by simp
next
  case (Cons a docs)
  show ?case
  proof (cases "bug_id a = i")
    case True
    then show ?thesis using assms(2) by simp
  next
    case False
    with Cons.prems have "find (\<lambda>b. bug_id b = i) docs = Some b" by simp
    from Cons.IH [OF this] False show ?thesis by simp
  qed
qed

lemma replace_replace:
  assumes "bug_id d1 = i"
  shows "map (\<lambda>x. if bug_id x = i then d2 else x) (map (\<lambda>x. if bug_id x = i then d1 else x) docs) =
   map (\<lambda>x. if bug_id x = i then d2 else x) docs"
  using assms by (induction docs) simp_all

lemma findById_Some:
  assumes "findById e i docs = Inr (Some b)"
  shows "castObjectId e i = Some (bug_id b)"
    and "find (\<lambda>x. bug_id x = bug_id b) docs = Some b"
proof -
  obtain oid where c: "castObjectId e i = Some oid"
    using assms by (cases "castObjectId e i") (simp_all add: findById_def)
  then have f: "find (\<lambda>x. bug_id x = oid) docs = Some b"
    using assms by (simp add: findById_def)
  then have "bug_id b = oid" using find_id by blast
  with c f show "castObjectId e i = Some (bug_id b)"
    and "find (\<lambda>x. bug_id x = bug_id b) docs = Some b" by simp_all
qed


lemma validate_history_update:
  "validate (b\<lparr>status := s, updatedAt := t, statusHistory := statusHistory b @ hs\<rparr>) =
   validTitle (title b) @ validDescription (description b) @ validPriority (priority b) @
   validStatus s @ validReportedBy (reportedBy b) @ validSource (source b) @
   concat (map validComment (comments b)) @
   concat (map validHistoryEntry (statusHistory b)) @ concat (map validHistoryEntry hs)"
  by (simp add: validate_def)

lemma save_valid:
  "validate doc = [] \<Longrightarrow>
   save e doc docs = Inr (doc\<lparr>updatedAt := now e\<rparr>,
     map (\<lambda>b. if bug_id b = bug_id doc then doc\<lparr>updatedAt := now e\<rparr> else b) docs)"
  by (simp add: save_def Let_def)

lemma save_invalid:
  "validate doc \<noteq> [] \<Longrightarrow> save e doc docs = Inl (validationError (validate doc))"
  by (cases "validate doc") (simp_all add: save_def)

lemma updateStatus_valid:
  assumes "validate bug = []" and "s \<in> set [''Open'', ''In Progress'', ''Resolved'']"
  shows "updateStatus e s bug docs =
    Inr (bug\<lparr>status := s, updatedAt := now e,
           statusHistory := statusHistory bug @
             [\<lparr>h_from = Some (status bug), h_to = s, h_by = Some ''system'',
               h_at = now e, h_reason = None\<rparr>]\<rparr>,
         map (\<lambda>b. if bug_id b = bug_id bug
                   then bug\<lparr>status := s, updatedAt := now e,
                          statusHistory := statusHistory bug @
                            [\<lparr>h_from = Some (status bug), h_to = s, h_by = Some ''system'',
                              h_at = now e, h_reason = None\<rparr>]\<rparr>
                   else b) docs)"
proof -
  let ?h = "\<lparr>h_from = Some (status bug), h_to = s, h_by = Some ''system'',
               h_at = now e, h_reason = None\<rparr>"
  have c: "castHistoryEntry ?h = ?h"
    by (simp add: castHistoryEntry_def trimOpt_def trim_def isSpace_def)
  have s: "s \<noteq> []" using assms(2) by auto
  have v: "validate (bug\<lparr>status := s, updatedAt := now e,
              statusHistory := statusHistory bug @ [?h]\<rparr>) = []"
    using assms s unfolding validate_history_update
    by (auto simp: validate_def validStatus_def requiredEnum_def validHistoryEntry_def)
  show ?thesis
    using assms(2) by (simp add: updateStatus_def c save_valid [OF v] Let_def)
qed

lemma patch_status_valid:
  assumes f: "findById e i docs = Inr (Some bug)" and v: "validate bug = []"
    and st: "b_status body = Some s" "s \<in> set [''Open'', ''In Progress'', ''Resolved'']"
    and r: "case b_reason body of None \<Rightarrow> True | Some r \<Rightarrow> length (trim r) \<le> 500"
  shows "patch_status e i body docs =
    (ok 200 (BugData (bug\<lparr>status := s, updatedAt := now e,
           statusHistory := statusHistory bug @
             [\<lparr>h_from = Some (status bug), h_to = s, h_by = Some ''system'',
               h_at = now e, h_reason = None\<rparr>,
              \<lparr>h_from = Some (status bug), h_to = s,
               h_by = Some (trim (orElse (b_by body) ''system'')),
               h_at = now e, h_reason = trimOpt (b_reason body)\<rparr>]\<rparr>))
        (Some ''Bug status updated successfully''),
     map (\<lambda>b. if bug_id b = bug_id bug
               then bug\<lparr>status := s, updatedAt := now e,
           statusHistory := statusHistory bug @
             [\<lparr>h_from = Some (status bug), h_to = s, h_by = Some ''system'',
               h_at = now e, h_reason = None\<rparr>,
              \<lparr>h_from = Some (status bug), h_to = s,
               h_by = Some (trim (orElse (b_by body) ''system'')),
               h_at = now e, h_reason = trimOpt (b_reason body)\<rparr>]\<rparr>
               else b) docs)"
proof -
  let ?h1 = "\<lparr>h_from = Some (status bug), h_to = s, h_by = Some ''system'',
               h_at = now e, h_reason = None\<rparr>"
  let ?h2 = "\<lparr>h_from = Some (status bug), h_to = s,
               h_by = Some (trim (orElse (b_by body) ''system'')),
               h_at = now e, h_reason = trimOpt (b_reason body)\<rparr>"
  let ?b1 = "bug\<lparr>status := s, updatedAt := now e, statusHistory := statusHistory bug @ [?h1]\<rparr>"
  let ?b2 = "bug\<lparr>status := s, updatedAt := now e, statusHistory := statusHistory bug @ [?h1, ?h2]\<rparr>"
  have s: "s \<noteq> []" using st(2) by auto
  have tr: "truthy (b_status body)" "orElse (b_status body) [] = s"
    using st(1) s by (simp_all add: truthy_def orElse_def)
  have u: "updateStatus e s bug docs =
      Inr (?b1, map (\<lambda>b. if bug_id b = bug_id bug then ?b1 else b) docs)"
    using updateStatus_valid [OF v st(2), of e docs] by simp
  have c: "castHistoryEntry \<lparr>h_from = Some (status bug), h_to = s,
               h_by = Some (orElse (b_by body) ''system''),
               h_at = now e, h_reason = b_reason body\<rparr> = ?h2"
    by (simp add: castHistoryEntry_def trimOpt_def)
  have b12: "?b1\<lparr>statusHistory := statusHistory ?b1 @ [?h2]\<rparr> = ?b2" by simp
  have v2: "validate ?b2 = []"
    using v s st(2) r unfolding validate_history_update
    by (auto simp: validate_def validStatus_def requiredEnum_def validHistoryEntry_def
          trimOpt_def split: option.splits)
  have sv: "save e ?b2 (map (\<lambda>b. if bug_id b = bug_id bug then ?b1 else b) docs) =
      Inr (?b2, map (\<lambda>b. if bug_id b = bug_id bug then ?b2 else b) docs)"
    using save_valid [OF v2, of e "map (\<lambda>b. if bug_id b = bug_id bug then ?b1 else b) docs"]
    by (simp add: replace_replace)
  show ?thesis
    unfolding patch_status_def
    by (simp only: tr f u c b12 sv Let_def sum.case option.case prod.case simp_thms if_False
          bug.simps)
qed

lemmas example_defs = testEnv_def sampleBug_def testBug_def emptyBody_def emptyQuery_def
  updatedBug_def sampleFeedback_def feedbackBug_def hex24_def isHexDigit_def lowerHex_def

lemma validate_testBug: "validate testBug = []"
  by (simp add: testBug_def valid_defs)

lemma findById_testBug:
  "findById testEnv ''507f1f77bcf86cd799439011'' [testBug] = Inr (Some testBug)"
  by (simp add: findById_def testEnv_def testBug_def hex24_def isHexDigit_def lowerHex_def)

text \<open>The cast makes the spelling of the parameter immaterial.\<close>

lemma findById_upper_case:
  "findById testEnv ''507F1F77BCF86CD799439011'' [testBug] = Inr (Some testBug)"
  by (simp add: findById_def testEnv_def testBug_def hex24_def isHexDigit_def lowerHex_def)

section \<open>The status history\<close>

text \<open>
  C1. Every status transition should append exactly one history entry, so that the
  length of \<^verbatim>\<open>statusHistory\<close> counts the status changes. The handler of
  \<^verbatim>\<open>PATCH /api/bugs/:id/status\<close> does not do that: the document that
  \<^verbatim>\<open>POST /api/bugs\<close> stores for the test request has an empty history, and one PATCH to
  \<^verbatim>\<open>In Progress\<close> leaves it with two entries, one pushed by \<open>updateStatus\<close> and one by
  the handler.
\<close>

theorem patch_appends_two_entries:
  "fst (snd (post_bugs testEnv sampleBug [])) = [testBug] \<and>
   map (\<lambda>b. length (statusHistory b)) [testBug] = [0] \<and>
   map (\<lambda>b. length (statusHistory b))
     (snd (patch_status testEnv ''507f1f77bcf86cd799439011''
        (emptyBody\<lparr>b_status := Some ''In Progress''\<rparr>) [testBug])) = [2]"
  by (simp add: post_bugs_def patch_status_def updateStatus_def save_def findById_def
      example_defs truthy_def orElse_def Bug_def doc_set_def schemaDefaults_def setOpt_def
      trimOpt_def trim_def isSpace_def insertDoc_def valid_defs ok_def castHistoryEntry_def
      Let_def)

theorem patch_appends_two_entries_witness:
  "map (\<lambda>b. length (statusHistory b))
     (snd (patch_status testEnv ''507f1f77bcf86cd799439011''
        (emptyBody\<lparr>b_status := Some ''In Progress''\<rparr>)
        (fst (snd (post_bugs testEnv sampleBug []))))) = [2]"
  using patch_appends_two_entries by simp

text \<open>
  C10. A PATCH whose status is the stored one is no no-op. For a stored, valid document
  and a reason within the schema's limit, the request succeeds, the history grows by two
  entries whose \<^verbatim>\<open>from\<close> and \<^verbatim>\<open>to\<close> are both the unchanged status, the document is
  written back with a new \<^verbatim>\<open>updatedAt\<close>, and the collection is no longer what it was.
\<close>

theorem patch_same_status_appends:
  assumes "findById e i docs = Inr (Some bug)" and "validate bug = []"
    and "b_status body = Some (status bug)"
    and "case b_reason body of None \<Rightarrow> True | Some r \<Rightarrow> length (trim r) \<le> 500"
  shows "patch_status e i body docs =
    (ok 200 (BugData (bug\<lparr>updatedAt := now e,
           statusHistory := statusHistory bug @
             [\<lparr>h_from = Some (status bug), h_to = status bug, h_by = Some ''system'',
               h_at = now e, h_reason = None\<rparr>,
              \<lparr>h_from = Some (status bug), h_to = status bug,
               h_by = Some (trim (orElse (b_by body) ''system'')),
               h_at = now e, h_reason = trimOpt (b_reason body)\<rparr>]\<rparr>))
        (Some ''Bug status updated successfully''),
     map (\<lambda>b. if bug_id b = bug_id bug
               then bug\<lparr>updatedAt := now e,
           statusHistory := statusHistory bug @
             [\<lparr>h_from = Some (status bug), h_to = status bug, h_by = Some ''system'',
               h_at = now e, h_reason = None\<rparr>,
              \<lparr>h_from = Some (status bug), h_to = status bug,
               h_by = Some (trim (orElse (b_by body) ''system'')),
               h_at = now e, h_reason = trimOpt (b_reason body)\<rparr>]\<rparr>
               else b) docs) \<and>
    snd (patch_status e i body docs) \<noteq> docs"
proof -
  let ?b = "bug\<lparr>updatedAt := now e,
           statusHistory := statusHistory bug @
             [\<lparr>h_from = Some (status bug), h_to = status bug, h_by = Some ''system'',
               h_at = now e, h_reason = None\<rparr>,
              \<lparr>h_from = Some (status bug), h_to = status bug,
               h_by = Some (trim (orElse (b_by body) ''system'')),
               h_at = now e, h_reason = trimOpt (b_reason body)\<rparr>]\<rparr>"
  have en: "status bug \<in> set [''Open'', ''In Progress'', ''Resolved'']"
    using assms(2) by (auto simp: validate_def validStatus_def requiredEnum_def split: if_splits)
  have same: "bug\<lparr>status := status bug, updatedAt := now e,
           statusHistory := statusHistory bug @
             [\<lparr>h_from = Some (status bug), h_to = status bug, h_by = Some ''system'',
               h_at = now e, h_reason = None\<rparr>,
              \<lparr>h_from = Some (status bug), h_to = status bug,
               h_by = Some (trim (orElse (b_by body) ''system'')),
               h_at = now e, h_reason = trimOpt (b_reason body)\<rparr>]\<rparr> = ?b"
    by simp
  have eq: "patch_status e i body docs =
     (ok 200 (BugData ?b) (Some ''Bug status updated successfully''),
      map (\<lambda>b. if bug_id b = bug_id bug then ?b else b) docs)"
    using patch_status_valid [OF assms(1,2,3) en assms(4)] unfolding same .
  have f: "find (\<lambda>b. bug_id b = bug_id bug) docs = Some bug"
    using findById_Some(2) [OF assms(1)] .
  have "find (\<lambda>b. bug_id b = bug_id bug)
      (map (\<lambda>b. if bug_id b = bug_id bug then ?b else b) docs) = Some ?b"
    using find_replace [OF f, of ?b] by simp
  moreover have "length (statusHistory ?b) \<noteq> length (statusHistory bug)" by simp
  then have "?b \<noteq> bug" by metis
  ultimately have "map (\<lambda>b. if bug_id b = bug_id bug then ?b else b) docs \<noteq> docs"
    using f by auto
  then have "snd (patch_status e i body docs) \<noteq> docs" by (simp add: eq)
  with eq show ?thesis by simp
qed

theorem patch_same_status_appends_witness:
  "patch_status testEnv ''507f1f77bcf86cd799439011'' (emptyBody\<lparr>b_status := Some ''Open''\<rparr>)
     [testBug] =
     (ok 200 (BugData (testBug\<lparr>updatedAt := 1000, statusHistory :=
        [\<lparr>h_from = Some ''Open'', h_to = ''Open'', h_by = Some ''system'', h_at = 1000,
          h_reason = None\<rparr>,
         \<lparr>h_from = Some ''Open'', h_to = ''Open'', h_by = Some ''system'', h_at = 1000,
          h_reason = None\<rparr>]\<rparr>))
        (Some ''Bug status updated successfully''),
      [testBug\<lparr>updatedAt := 1000, statusHistory :=
        [\<lparr>h_from = Some ''Open'', h_to = ''Open'', h_by = Some ''system'', h_at = 1000,
          h_reason = None\<rparr>,
         \<lparr>h_from = Some ''Open'', h_to = ''Open'', h_by = Some ''system'', h_at = 1000,
          h_reason = None\<rparr>]\<rparr>]) \<and>
   snd (patch_status testEnv ''507f1f77bcf86cd799439011'' (emptyBody\<lparr>b_status := Some ''Open''\<rparr>)
     [testBug]) \<noteq> [testBug]"
proof -
  have b: "b_status (emptyBody\<lparr>b_status := Some ''Open''\<rparr>) = Some (status testBug)"
    by (simp add: testBug_def)
  have r: "case b_reason (emptyBody\<lparr>b_status := Some ''Open''\<rparr>) of None \<Rightarrow> True
           | Some r \<Rightarrow> length (trim r) \<le> 500"
    by (simp add: emptyBody_def)
  show ?thesis
    using patch_same_status_appends [OF findById_testBug validate_testBug b r]
    by (simp add: testBug_def testEnv_def emptyBody_def orElse_def trim_def isSpace_def trimOpt_def)
qed

section \<open>Error outcomes of the handlers\<close>

lemma errorHandler_Error:
  "msg \<noteq> [] \<Longrightarrow> errorHandler (Error msg) =
     \<lparr>statusCode = 500, success = False, data = NoData, res_message = None,
      res_error = Some msg, res_count = None, res_errors = []\<rparr>"
  by (simp add: errorHandler_def Error_def Let_def)

lemma errorHandler_castError:
  "errorHandler castError =
     \<lparr>statusCode = 404, success = False, data = NoData, res_message = None,
      res_error = Some ''Resource not found'', res_count = None, res_errors = []\<rparr>"
  by (simp add: errorHandler_def castError_def ApiError_def Let_def)

text \<open>
  C2. A PATCH of a stored document to a status outside the three values of the schema
  should fail with status code 400 and leave the collection as it was. The collection is
  indeed untouched, but the response is a 500: \<open>updateStatus\<close> throws a plain
  \<^verbatim>\<open>Error\<close>, which carries no status code, and \<open>errorHandler\<close> falls back to 500.
\<close>

theorem patch_invalid_status_500:
  assumes "findById e i docs = Inr (Some bug)"
    and "b_status body = Some s" and "s \<noteq> []"
    and "s \<notin> set [''Open'', ''In Progress'', ''Resolved'']"
  shows "patch_status e i body docs =
    (\<lparr>statusCode = 500, success = False, data = NoData, res_message = None,
      res_error = Some ''Invalid status value'', res_count = None, res_errors = []\<rparr>, docs)"
proof -
  have tr: "truthy (b_status body)" "orElse (b_status body) [] = s"
    using assms(2,3) by (simp_all add: truthy_def orElse_def)
  have u: "updateStatus e s bug docs = Inl (Error ''Invalid status value'')"
    using assms(4) by (simp add: updateStatus_def)
  show ?thesis
    unfolding patch_status_def
    by (simp only: tr assms(1) u Let_def sum.case option.case simp_thms if_False
          errorHandler_Error [of "''Invalid status value''", simplified])
qed

theorem patch_invalid_status_500_witness:
  "patch_status testEnv ''507f1f77bcf86cd799439011'' (emptyBody\<lparr>b_status := Some ''Closed''\<rparr>)
     [testBug] =
    (\<lparr>statusCode = 500, success = False, data = NoData, res_message = None,
      res_error = Some ''Invalid status value'', res_count = None, res_errors = []\<rparr>, [testBug])"
  using patch_invalid_status_500 [OF findById_testBug,
      of "emptyBody\<lparr>b_status := Some ''Closed''\<rparr>" "''Closed''"]
  by simp

text \<open>
  C3. An identifier that the driver cannot cast should give status code 400 on
  every route that takes one, unlike the 404 of a well-formed identifier that matches
  nothing. The handlers of GET, PUT and DELETE catch the \<^verbatim>\<open>CastError\<close> and answer 400.
  Those of \<^verbatim>\<open>PATCH /:id/status\<close> and \<^verbatim>\<open>POST /:id/comments\<close> pass it on to
  \<open>errorHandler\<close>, which answers 404, the code of a missing document.
\<close>

theorem malformed_id_status_codes:
  assumes "castObjectId e i = None"
  shows "get_bug e i docs = failure 400 ''Invalid bug ID format'' \<and>
    put_bug e i updateData docs = (failure 400 ''Invalid bug ID format'', docs) \<and>
    delete_bug e i docs = (failure 400 ''Invalid bug ID format'', docs) \<and>
    (truthy (b_status body) \<longrightarrow>
       patch_status e i body docs = (errorHandler castError, docs)) \<and>
    (truthy (b_author body) \<and> truthy (b_message body) \<longrightarrow>
       post_comment e i body docs = (errorHandler castError, docs)) \<and>
    statusCode (errorHandler castError) = 404"
  using assms
  by (simp add: get_bug_def put_bug_def delete_bug_def patch_status_def post_comment_def
      findById_def findByIdAndDelete_def put_catch_def castError_def
      errorHandler_castError [unfolded castError_def])

theorem malformed_id_status_codes_witness:
  "statusCode (get_bug testEnv ''invalid-id'' [testBug]) = 400 \<and>
   statusCode (fst (put_bug testEnv ''invalid-id''
      (emptyBody\<lparr>b_status := Some ''In Progress''\<rparr>) [testBug])) = 400 \<and>
   statusCode (fst (delete_bug testEnv ''invalid-id'' [testBug])) = 400 \<and>
   statusCode (fst (patch_status testEnv ''invalid-id''
      (emptyBody\<lparr>b_status := Some ''Resolved''\<rparr>) [testBug])) = 404 \<and>
   statusCode (fst (post_comment testEnv ''invalid-id''
      (emptyBody\<lparr>b_author := Some ''Test User'', b_message := Some ''Seen it too''\<rparr>)
      [testBug])) = 404 \<and>
   statusCode (fst (patch_status testEnv ''507f191e810c19729de860ea''
      (emptyBody\<lparr>b_status := Some ''Resolved''\<rparr>) [testBug])) = 404"
proof -
  have n: "castObjectId testEnv ''invalid-id'' = None"
    by (simp add: testEnv_def hex24_def)
  have a: "findById testEnv ''507f191e810c19729de860ea'' [testBug] = Inr None"
    by (simp add: findById_def testEnv_def hex24_def isHexDigit_def lowerHex_def testBug_def)
  have "statusCode (fst (patch_status testEnv ''507f191e810c19729de860ea''
      (emptyBody\<lparr>b_status := Some ''Resolved''\<rparr>) [testBug])) = 404"
    by (simp add: patch_status_def a truthy_def failure_def)
  then show ?thesis
    using malformed_id_status_codes [OF n, of "[testBug]"
        "emptyBody\<lparr>b_status := Some ''In Progress''\<rparr>"
        "emptyBody\<lparr>b_status := Some ''Resolved''\<rparr>"]
      malformed_id_status_codes [OF n, of "[testBug]" "emptyBody"
        "emptyBody\<lparr>b_author := Some ''Test User'', b_message := Some ''Seen it too''\<rparr>"]
    by (simp add: truthy_def failure_def)
qed

section \<open>Listing with a filter\<close>

lemma set_insertBy: "set (insertBy le x ys) = insert x (set ys)"
  by (induction ys) auto

lemma length_insertBy: "length (insertBy le x ys) = Suc (length ys)"
  by (induction ys) auto

lemma set_sortDocs: "set (sortDocs field desc docs) = set docs"
  unfolding sortDocs_def by (induction docs) (simp_all add: set_insertBy)

lemma length_sortDocs: "length (sortDocs field desc docs) = length docs"
  unfolding sortDocs_def by (induction docs) (simp_all add: length_insertBy)

lemma condition_string:
  "condition e (if truthyQ (map_option QString v) then map_option QString v else None) =
     Inr (\<lambda>x. truthy v \<longrightarrow> v = Some x)"
  by (cases v) (auto simp add: condition_def truthyQ_def truthy_def)

text \<open>
  What the filter does do: when \<^verbatim>\<open>status\<close> and \<^verbatim>\<open>priority\<close> are strings or absent and
  the database accepts the sort path, the answer is a 200 with exactly the documents that
  equal the query on the two paths, where the query has a non-empty value for them.
\<close>

lemma get_bugs_string_filters:
  assumes "q_status q = map_option QString st" and "q_priority q = map_option QString pr"
    and "sortError e (case q_sortBy q of None \<Rightarrow> ''createdAt'' | Some v \<Rightarrow> propertyKey v) = None"
  shows "statusCode (get_bugs e q docs) = 200 \<and>
    (case data (get_bugs e q docs) of
       BugList bugs \<Rightarrow>
         set bugs = {b \<in> set docs.
            (truthy st \<longrightarrow> st = Some (status b)) \<and> (truthy pr \<longrightarrow> pr = Some (priority b))} \<and>
         res_count (get_bugs e q docs) = Some (length bugs)
     | _ \<Rightarrow> False)"
proof -
  let ?f = "\<lparr>f_status = (if truthyQ (q_status q) then q_status q else None),
             f_priority = (if truthyQ (q_priority q) then q_priority q else None)\<rparr>"
  let ?found = "filter (\<lambda>b. (truthy st \<longrightarrow> st = Some (status b)) \<and>
                          (truthy pr \<longrightarrow> pr = Some (priority b))) docs"
  let ?bugs = "sortDocs (case q_sortBy q of None \<Rightarrow> ''createdAt'' | Some v \<Rightarrow> propertyKey v)
                 (case q_order q of None \<Rightarrow> True | Some v \<Rightarrow> v = QString ''desc'') ?found"
  have cs: "condition e (f_status ?f) = Inr (\<lambda>x. truthy st \<longrightarrow> st = Some x)"
    and cp: "condition e (f_priority ?f) = Inr (\<lambda>x. truthy pr \<longrightarrow> pr = Some x)"
    unfolding assms(1,2) by (simp_all only: bugFilter.simps condition_string)
  have F: "Bug_find e ?f docs = Inr ?found"
    unfolding Bug_find_def cs cp by simp
  have G: "get_bugs e q docs =
      \<lparr>statusCode = 200, success = True, data = BugList ?bugs, res_message = None,
       res_error = None, res_count = Some (length ?bugs), res_errors = []\<rparr>"
    unfolding get_bugs_def Let_def F assms(3) by simp
  show ?thesis unfolding G by (simp add: set_sortDocs)
qed

text \<open>The two ways in which the listing fails or returns other documents.\<close>

lemma get_bugs_empty_sort_path:
  "statusCode (get_bugs e (emptyQuery\<lparr>q_sortBy := Some (QString [])\<rparr>) docs) = 500 \<and>
   success (get_bugs e (emptyQuery\<lparr>q_sortBy := Some (QString [])\<rparr>) docs) = False \<and>
   data (get_bugs e (emptyQuery\<lparr>q_sortBy := Some (QString [])\<rparr>) docs) = NoData"
  by (simp add: get_bugs_def Bug_find_def condition_def sortError_def propertyKey_def
      emptyQuery_def truthyQ_def errorHandler_def serverError_def Let_def)

lemma get_bugs_operator_object:
  "data (get_bugs testEnv (emptyQuery\<lparr>q_status := Some (QObject [(''$ne'', ''Resolved'')])\<rparr>)
     [testBug]) = BugList [testBug]"
  by (simp add: get_bugs_def Bug_find_def condition_def sortError_def emptyQuery_def
      truthyQ_def testEnv_def testCondition_def testBug_def sortDocs_def Let_def)

text \<open>
  C4. The filter of \<^verbatim>\<open>GET /api/bugs\<close> should be a conjunction of exact matches on the
  paths among \<^verbatim>\<open>status\<close>, \<^verbatim>\<open>priority\<close>, \<^verbatim>\<open>source\<close> and \<^verbatim>\<open>assignedTo\<close> that the
  query gives. The handler never reads \<^verbatim>\<open>source\<close> and \<^verbatim>\<open>assignedTo\<close>: whatever the
  query gives for them, the response is the one of the query without them. So a query
  that gives nothing for \<^verbatim>\<open>status\<close> and \<^verbatim>\<open>priority\<close>, and a sort path that the
  database accepts, is answered with every document of the collection, whatever it
  gives for \<^verbatim>\<open>source\<close> and \<^verbatim>\<open>assignedTo\<close>.
\<close>

theorem get_bugs_ignores_source_and_assignee:
  "get_bugs e (q\<lparr>q_source := s, q_assignedTo := a\<rparr>) docs = get_bugs e q docs \<and>
   (\<not> truthyQ (q_status q) \<and> \<not> truthyQ (q_priority q) \<and>
    sortError e (case q_sortBy q of None \<Rightarrow> ''createdAt'' | Some v \<Rightarrow> propertyKey v) = None
    \<longrightarrow> statusCode (get_bugs e (q\<lparr>q_source := s, q_assignedTo := a\<rparr>) docs) = 200 \<and>
        (case data (get_bugs e (q\<lparr>q_source := s, q_assignedTo := a\<rparr>) docs) of
           BugList bugs \<Rightarrow> set bugs = set docs \<and> length bugs = length docs
         | _ \<Rightarrow> False))"
proof -
  have eq: "get_bugs e (q\<lparr>q_source := s, q_assignedTo := a\<rparr>) docs = get_bugs e q docs"
    by (simp add: get_bugs_def)
  have "\<not> truthyQ (q_status q) \<and> \<not> truthyQ (q_priority q) \<and>
    sortError e (case q_sortBy q of None \<Rightarrow> ''createdAt'' | Some v \<Rightarrow> propertyKey v) = None
    \<longrightarrow> statusCode (get_bugs e q docs) = 200 \<and>
        (case data (get_bugs e q docs) of
           BugList bugs \<Rightarrow> set bugs = set docs \<and> length bugs = length docs
         | _ \<Rightarrow> False)"
    by (simp add: get_bugs_def Bug_find_def condition_def set_sortDocs length_sortDocs Let_def)
  then show ?thesis unfolding eq by (rule conjI [OF refl])
qed

theorem get_bugs_ignores_source_and_assignee_witness:
  "source testBug = ''internal'' \<and> assignedTo testBug = [] \<and>
   get_bugs testEnv
     (emptyQuery\<lparr>q_source := Some (QString ''customer''),
        q_assignedTo := Some (QString ''nobody'')\<rparr>) [testBug] =
     \<lparr>statusCode = 200, success = True, data = BugList [testBug], res_message = None,
      res_error = None, res_count = Some 1, res_errors = []\<rparr>"
proof -
  have "get_bugs testEnv emptyQuery [testBug] =
     \<lparr>statusCode = 200, success = True, data = BugList [testBug], res_message = None,
      res_error = None, res_count = Some 1, res_errors = []\<rparr>"
    by (simp add: get_bugs_def Bug_find_def condition_def sortError_def emptyQuery_def
        truthyQ_def testEnv_def sortDocs_def Let_def)
  then show ?thesis
    using get_bugs_ignores_source_and_assignee [where e = testEnv and q = emptyQuery
        and s = "Some (QString ''customer'')" and a = "Some (QString ''nobody'')"
        and docs = "[testBug]"]
    by (simp add: testBug_def)
qed

section \<open>Creating a bug\<close>

lemma statusCode_errorHandler_validationError:
  "statusCode (errorHandler (validationError msgs)) = 400"
  by (simp add: errorHandler_def validationError_def ApiError_def Let_def)


lemma statusCode_errorHandler_duplicateKeyError:
  "statusCode (errorHandler duplicateKeyError) = 400"
  by (simp add: errorHandler_def duplicateKeyError_def ApiError_def Let_def)

lemma insertDoc_cases:
  "insertDoc e doc docs =
     (if validate doc \<noteq> [] then Inl (validationError (validate doc))
      else if bug_id doc \<in> set (map bug_id docs) then Inl duplicateKeyError
      else Inr (doc, docs @ [doc]))"
  by (cases "validate doc") (simp_all add: insertDoc_def)

lemma truthy_Some: "truthy v \<Longrightarrow> v = Some (orElse v [])"
  by (cases v) (simp_all add: truthy_def orElse_def)

lemma post_bugs_present:
  assumes "truthy (b_title body)" and "truthy (b_description body)"
    and "truthy (b_reportedBy body)"
  shows "post_bugs e body docs =
    (let newBug = \<lparr>bug_id = newObjectId e, title = trim (orElse (b_title body) []),
           description = trim (orElse (b_description body) []),
           priority = orElse (b_priority body) ''Medium'', status = ''Open'',
           reportedBy = trim (orElse (b_reportedBy body) []),
           assignedTo = trim (orElse (b_assignedTo body) []),
           source = orElse (b_source body) ''internal'',
           customer = (if b_source body = Some ''customer''
              then Some (trimCustomer (case b_customer body of
                     None \<Rightarrow> \<lparr>c_name = None, c_email = None, c_id = None\<rparr> | Some c \<Rightarrow> c))
              else None),
           comments = [], statusHistory = [], createdAt = now e, updatedAt = now e\<rparr>
     in if validate newBug \<noteq> [] then (errorHandler (validationError (validate newBug)), docs, NotConfigured)
        else if newObjectId e \<in> set (map bug_id docs)
          then (errorHandler duplicateKeyError, docs, NotConfigured)
        else (ok 201 (BugData newBug) (Some ''Bug created successfully''), docs @ [newBug],
              notifySlack e (newBugText newBug)))"
proof -
  have t: "b_title body = Some (orElse (b_title body) [])"
    and d: "b_description body = Some (orElse (b_description body) [])"
    and r: "b_reportedBy body = Some (orElse (b_reportedBy body) [])"
    using assms by (simp_all add: truthy_Some [symmetric])
  have B: "Bug e (emptyBody\<lparr>
               b_title := b_title body,
               b_description := b_description body,
               b_priority := Some (orElse (b_priority body) ''Medium''),
               b_reportedBy := b_reportedBy body,
               b_assignedTo := Some (orElse (b_assignedTo body) []),
               b_source := Some (orElse (b_source body) ''internal''),
               b_customer := (if b_source body = Some ''customer''
                  then Some (case b_customer body of
                               None \<Rightarrow> \<lparr>c_name = None, c_email = None, c_id = None\<rparr>
                             | Some c \<Rightarrow> c)
                  else None)\<rparr>) =
      \<lparr>bug_id = newObjectId e, title = trim (orElse (b_title body) []),
           description = trim (orElse (b_description body) []),
           priority = orElse (b_priority body) ''Medium'', status = ''Open'',
           reportedBy = trim (orElse (b_reportedBy body) []),
           assignedTo = trim (orElse (b_assignedTo body) []),
           source = orElse (b_source body) ''internal'',
           customer = (if b_source body = Some ''customer''
              then Some (trimCustomer (case b_customer body of
                     None \<Rightarrow> \<lparr>c_name = None, c_email = None, c_id = None\<rparr> | Some c \<Rightarrow> c))
              else None),
           comments = [], statusHistory = [], createdAt = now e, updatedAt = now e\<rparr>"
    apply (subst t, subst d, subst r)
    apply (simp add: Bug_def doc_set_def schemaDefaults_def emptyBody_def setOpt_def trimOpt_def)
    done
  show ?thesis
    unfolding post_bugs_def using assms
    by (simp add: B insertDoc_cases Let_def)
qed

lemma validate_newBug:
  assumes "t \<noteq> []" "length t \<le> 100" "d \<noteq> []" "length d \<le> 1000"
    "r \<noteq> []" "length r \<le> 50"
    "p \<in> set [''Low'', ''Medium'', ''High'']" "src \<in> set [''internal'', ''customer'']"
  shows "validate \<lparr>bug_id = oid, title = t, description = d, priority = p, status = ''Open'',
     reportedBy = r, assignedTo = a, source = src, customer = c, comments = [],
     statusHistory = [], createdAt = n, updatedAt = n\<rparr> = []"
proof -
  have "p \<noteq> []" "src \<noteq> []" using assms(7,8) by auto
  then show ?thesis using assms by (simp add: valid_defs)
qed

lemma post_sampleBug:
  "post_bugs testEnv sampleBug [] =
    (ok 201 (BugData testBug) (Some ''Bug created successfully''), [testBug],
     FailureLogged ''https://hooks.slack.test/services/T0'' (newBugText testBug))"
  by (simp add: post_bugs_def example_defs truthy_def orElse_def Bug_def doc_set_def
      schemaDefaults_def setOpt_def trimOpt_def trim_def isSpace_def insertDoc_def valid_defs
      notifySlack_def Let_def)

text \<open>
  C6. A request to \<^verbatim>\<open>POST /api/bugs\<close> that carries a title, a description and a
  reporter is either refused with status code 400, the collection unchanged, or answered
  with 201 and the document appended to the collection; that document has status
  \<^verbatim>\<open>Open\<close>, the priority of the request or \<^verbatim>\<open>Medium\<close>, the source of the request or
  \<^verbatim>\<open>internal\<close>, the trimmed assignee of the request or the empty string, and no
  history. It is answered with 201 whenever the three required values are not blank and
  within their length limits, priority and source are values of their enumerations
  where given, and the generated identifier is new.
\<close>

theorem create_defaults:
  assumes "truthy (b_title body)" and "truthy (b_description body)"
    and "truthy (b_reportedBy body)"
  shows "((statusCode (fst (post_bugs e body docs)) = 201 \<and>
      (case data (fst (post_bugs e body docs)) of
         BugData b \<Rightarrow>
           fst (snd (post_bugs e body docs)) = docs @ [b] \<and>
           status b = ''Open'' \<and>
           priority b = orElse (b_priority body) ''Medium'' \<and>
           source b = orElse (b_source body) ''internal'' \<and>
           assignedTo b = trim (orElse (b_assignedTo body) []) \<and>
           statusHistory b = [] \<and> comments b = []
       | _ \<Rightarrow> False)) \<or>
     (statusCode (fst (post_bugs e body docs)) = 400 \<and>
      fst (snd (post_bugs e body docs)) = docs)) \<and>
    (trim (orElse (b_title body) []) \<noteq> [] \<and> length (trim (orElse (b_title body) [])) \<le> 100 \<and>
     trim (orElse (b_description body) []) \<noteq> [] \<and>
     length (trim (orElse (b_description body) [])) \<le> 1000 \<and>
     trim (orElse (b_reportedBy body) []) \<noteq> [] \<and>
     length (trim (orElse (b_reportedBy body) [])) \<le> 50 \<and>
     orElse (b_priority body) ''Medium'' \<in> set [''Low'', ''Medium'', ''High''] \<and>
     orElse (b_source body) ''internal'' \<in> set [''internal'', ''customer''] \<and>
     newObjectId e \<notin> set (map bug_id docs)
     \<longrightarrow> statusCode (fst (post_bugs e body docs)) = 201)"
proof -
  note p = post_bugs_present [OF assms, of e docs]
  have A: "(statusCode (fst (post_bugs e body docs)) = 201 \<and>
      (case data (fst (post_bugs e body docs)) of
         BugData b \<Rightarrow>
           fst (snd (post_bugs e body docs)) = docs @ [b] \<and>
           status b = ''Open'' \<and>
           priority b = orElse (b_priority body) ''Medium'' \<and>
           source b = orElse (b_source body) ''internal'' \<and>
           assignedTo b = trim (orElse (b_assignedTo body) []) \<and>
           statusHistory b = [] \<and> comments b = []
       | _ \<Rightarrow> False)) \<or>
     (statusCode (fst (post_bugs e body docs)) = 400 \<and>
      fst (snd (post_bugs e body docs)) = docs)"
    unfolding p Let_def
    by (simp add: ok_def statusCode_errorHandler_validationError
        statusCode_errorHandler_duplicateKeyError)
  have B: "trim (orElse (b_title body) []) \<noteq> [] \<and> length (trim (orElse (b_title body) [])) \<le> 100 \<and>
     trim (orElse (b_description body) []) \<noteq> [] \<and>
     length (trim (orElse (b_description body) [])) \<le> 1000 \<and>
     trim (orElse (b_reportedBy body) []) \<noteq> [] \<and>
     length (trim (orElse (b_reportedBy body) [])) \<le> 50 \<and>
     orElse (b_priority body) ''Medium'' \<in> set [''Low'', ''Medium'', ''High''] \<and>
     orElse (b_source body) ''internal'' \<in> set [''internal'', ''customer''] \<and>
     newObjectId e \<notin> set (map bug_id docs)
     \<longrightarrow> statusCode (fst (post_bugs e body docs)) = 201"
  proof
    assume h: "trim (orElse (b_title body) []) \<noteq> [] \<and> length (trim (orElse (b_title body) [])) \<le> 100 \<and>
     trim (orElse (b_description body) []) \<noteq> [] \<and>
     length (trim (orElse (b_description body) [])) \<le> 1000 \<and>
     trim (orElse (b_reportedBy body) []) \<noteq> [] \<and>
     length (trim (orElse (b_reportedBy body) [])) \<le> 50 \<and>
     orElse (b_priority body) ''Medium'' \<in> set [''Low'', ''Medium'', ''High''] \<and>
     orElse (b_source body) ''internal'' \<in> set [''internal'', ''customer''] \<and>
     newObjectId e \<notin> set (map bug_id docs)"
    then have v: "validate \<lparr>bug_id = newObjectId e, title = trim (orElse (b_title body) []),
           description = trim (orElse (b_description body) []),
           priority = orElse (b_priority body) ''Medium'', status = ''Open'',
           reportedBy = trim (orElse (b_reportedBy body) []),
           assignedTo = trim (orElse (b_assignedTo body) []),
           source = orElse (b_source body) ''internal'',
           customer = (if b_source body = Some ''customer''
              then Some (trimCustomer (case b_customer body of
                     None \<Rightarrow> \<lparr>c_name = None, c_email = None, c_id = None\<rparr> | Some c \<Rightarrow> c))
              else None),
           comments = [], statusHistory = [], createdAt = now e, updatedAt = now e\<rparr> = []"
      by (intro validate_newBug) simp_all
    from h have "newObjectId e \<notin> set (map bug_id docs)" by simp
    then show "statusCode (fst (post_bugs e body docs)) = 201"
      unfolding p Let_def v by (simp add: ok_def)
  qed
  from A B show ?thesis by (rule conjI)
qed

theorem create_defaults_witness:
  "statusCode (fst (post_bugs testEnv sampleBug [])) = 201 \<and>
   fst (snd (post_bugs testEnv sampleBug [])) = [testBug] \<and>
   status testBug = ''Open'' \<and> priority testBug = ''Medium'' \<and>
   source testBug = ''internal'' \<and> assignedTo testBug = []"
proof -
  have t: "truthy (b_title sampleBug)" "truthy (b_description sampleBug)"
    "truthy (b_reportedBy sampleBug)"
    by (simp_all add: sampleBug_def truthy_def)
  show ?thesis
    using create_defaults [OF t, of testEnv "[]"]
    by (simp add: post_sampleBug ok_def testBug_def)
qed

text \<open>
  C7. A request to \<^verbatim>\<open>POST /api/bugs\<close> in which the title, the description or the
  reporter is missing (or empty) is answered with status code 400, the collection is what
  it was, and so is the count of any listing.
\<close>

theorem create_missing_required:
  assumes "\<not> truthy (b_title body) \<or> \<not> truthy (b_description body) \<or>
           \<not> truthy (b_reportedBy body)"
  shows "statusCode (fst (post_bugs e body docs)) = 400 \<and>
         fst (snd (post_bugs e body docs)) = docs \<and>
         res_count (get_bugs e' q (fst (snd (post_bugs e body docs)))) =
           res_count (get_bugs e' q docs)"
  using assms by (auto simp add: post_bugs_def failure_def)

theorem create_missing_required_witness:
  "statusCode (fst (post_bugs testEnv (sampleBug\<lparr>b_description := None\<rparr>) [testBug])) = 400 \<and>
   fst (snd (post_bugs testEnv (sampleBug\<lparr>b_description := None\<rparr>) [testBug])) = [testBug] \<and>
   res_count (get_bugs testEnv emptyQuery
      (fst (snd (post_bugs testEnv (sampleBug\<lparr>b_description := None\<rparr>) [testBug])))) = Some 1"
proof -
  have m: "\<not> truthy (b_title (sampleBug\<lparr>b_description := None\<rparr>)) \<or>
           \<not> truthy (b_description (sampleBug\<lparr>b_description := None\<rparr>)) \<or>
           \<not> truthy (b_reportedBy (sampleBug\<lparr>b_description := None\<rparr>))"
    by (simp add: truthy_def)
  have c: "res_count (get_bugs testEnv emptyQuery [testBug]) = Some 1"
    by (simp add: get_bugs_def Bug_find_def condition_def sortError_def emptyQuery_def
        truthyQ_def testEnv_def sortDocs_def Let_def)
  show ?thesis
    using create_missing_required [OF m, where e = testEnv and docs = "[testBug]"
        and e' = testEnv and q = emptyQuery] c by simp
qed

text \<open>
  C9. \<^verbatim>\<open>POST /api/bugs\<close> does not read \<^verbatim>\<open>status\<close> from the body: whatever the body
  gives there, the outcome is the same, and a document that is created has status
  \<^verbatim>\<open>Open\<close> and an empty history.
\<close>

theorem create_ignores_status:
  "post_bugs e (body\<lparr>b_status := s\<rparr>) docs = post_bugs e body docs \<and>
   (statusCode (fst (post_bugs e (body\<lparr>b_status := s\<rparr>) docs)) = 201 \<longrightarrow>
      (case data (fst (post_bugs e (body\<lparr>b_status := s\<rparr>) docs)) of
         BugData b \<Rightarrow> status b = ''Open'' \<and> statusHistory b = [] \<and>
            b \<in> set (fst (snd (post_bugs e (body\<lparr>b_status := s\<rparr>) docs)))
       | _ \<Rightarrow> False))"
proof -
  have eq: "post_bugs e (body\<lparr>b_status := s\<rparr>) docs = post_bugs e body docs"
    by (simp add: post_bugs_def)
  have main: "statusCode (fst (post_bugs e body docs)) = 201 \<longrightarrow>
      (case data (fst (post_bugs e body docs)) of
         BugData b \<Rightarrow> status b = ''Open'' \<and> statusHistory b = [] \<and>
            b \<in> set (fst (snd (post_bugs e body docs)))
       | _ \<Rightarrow> False)"
  proof (cases "truthy (b_title body) \<and> truthy (b_description body) \<and> truthy (b_reportedBy body)")
    case True
    then have t: "truthy (b_title body)" "truthy (b_description body)" "truthy (b_reportedBy body)"
      by simp_all
    show ?thesis
      unfolding post_bugs_present [OF t] Let_def
      by (simp add: ok_def statusCode_errorHandler_validationError
          statusCode_errorHandler_duplicateKeyError)
  next
    case False
    then have "statusCode (fst (post_bugs e body docs)) = 400"
      by (auto simp add: post_bugs_def failure_def)
    then show ?thesis by simp
  qed
  show ?thesis unfolding eq by (rule conjI [OF refl main])
qed

theorem create_ignores_status_witness:
  "post_bugs testEnv (sampleBug\<lparr>b_status := Some ''Resolved''\<rparr>) [] =
     (ok 201 (BugData testBug) (Some ''Bug created successfully''), [testBug],
      FailureLogged ''https://hooks.slack.test/services/T0'' (newBugText testBug)) \<and>
   status testBug = ''Open''"
  using create_ignores_status [where e = testEnv and body = sampleBug
      and s = "Some ''Resolved''" and docs = "[]"]
  by (simp add: post_sampleBug testBug_def)

section \<open>The webhook\<close>












section \<open>Replacing fields\<close>


lemma save_cases:
  "save e doc docs =
     (if validate doc \<noteq> [] then Inl (validationError (validate doc))
      else Inr (doc\<lparr>updatedAt := now e\<rparr>,
        map (\<lambda>b. if bug_id b = bug_id doc then doc\<lparr>updatedAt := now e\<rparr> else b) docs))"
  by (cases "validate doc") (simp_all add: save_def Let_def)







section \<open>Stored documents satisfy the schema\<close>

text \<open>
  Every write validates what it stores, so a collection whose documents all pass
  \<open>validate\<close> keeps that property under every handler. The theorems above that assume
  a stored document to be valid therefore speak of every document of a collection that
  the handlers have built from the empty one.
\<close>

lemma validate_doc_set:
  assumes "validateUpdate u = []" and "validate b = []"
  shows "validate (doc_set u b) = []"
proof -
  have "validTitle (setOpt (trimOpt (b_title u)) (title b)) = []"
    using assms by (cases "b_title u") (simp_all add: validateUpdate_def validate_def onSet_def setOpt_def trimOpt_def)
  moreover have "validDescription (setOpt (trimOpt (b_description u)) (description b)) = []"
    using assms by (cases "b_description u") (simp_all add: validateUpdate_def validate_def onSet_def setOpt_def trimOpt_def)
  moreover have "validPriority (setOpt (b_priority u) (priority b)) = []"
    using assms by (cases "b_priority u") (simp_all add: validateUpdate_def validate_def onSet_def setOpt_def)
  moreover have "validStatus (setOpt (b_status u) (status b)) = []"
    using assms by (cases "b_status u") (simp_all add: validateUpdate_def validate_def onSet_def setOpt_def)
  moreover have "validReportedBy (setOpt (trimOpt (b_reportedBy u)) (reportedBy b)) = []"
    using assms by (cases "b_reportedBy u") (simp_all add: validateUpdate_def validate_def onSet_def setOpt_def trimOpt_def)
  moreover have "validSource (setOpt (b_source u) (source b)) = []"
    using assms by (cases "b_source u") (simp_all add: validateUpdate_def validate_def onSet_def setOpt_def)
  moreover have "concat (map validComment
      (setOpt (map_option (map castComment) (b_comments u)) (comments b))) = []"
    using assms by (cases "b_comments u") (simp_all add: validateUpdate_def validate_def onSet_def setOpt_def)
  moreover have "concat (map validHistoryEntry
      (setOpt (map_option (map castHistoryEntry) (b_statusHistory u)) (statusHistory b))) = []"
    using assms by (cases "b_statusHistory u") (simp_all add: validateUpdate_def validate_def onSet_def setOpt_def)
  ultimately show ?thesis
    by (simp add: validate_def doc_set_def)
qed

lemma validate_updatedAt: "validate (b\<lparr>updatedAt := t\<rparr>) = validate b"
  by (simp add: validate_def)

lemma save_keeps_valid:
  assumes "save e doc docs = Inr (d, docs')" and "list_all (\<lambda>b. validate b = []) docs"
  shows "list_all (\<lambda>b. validate b = []) docs'"
proof -
  have v: "validate doc = []" using assms(1) by (simp add: save_cases split: if_splits)
  then have "docs' = map (\<lambda>b. if bug_id b = bug_id doc then doc\<lparr>updatedAt := now e\<rparr> else b) docs"
    using assms(1) by (simp add: save_cases)
  then show ?thesis using assms(2) v by (auto simp add: list_all_iff validate_updatedAt)
qed

lemma insertDoc_keeps_valid:
  assumes "insertDoc e doc docs = Inr (d, docs')" and "list_all (\<lambda>b. validate b = []) docs"
  shows "list_all (\<lambda>b. validate b = []) docs'"
  using assms by (auto simp add: insertDoc_cases split: if_splits)

lemma post_bugs_keeps_valid:
  assumes "list_all (\<lambda>b. validate b = []) docs"
  shows "list_all (\<lambda>b. validate b = []) (fst (snd (post_bugs e body docs)))"
  using assms insertDoc_keeps_valid [OF _ assms]
  by (simp add: post_bugs_def Let_def split: sum.splits prod.splits)

lemma post_feedback_keeps_valid:
  assumes "list_all (\<lambda>b. validate b = []) docs"
  shows "list_all (\<lambda>b. validate b = []) (fst (snd (post_feedback e body docs)))"
  using assms insertDoc_keeps_valid [OF _ assms]
  by (simp add: post_feedback_def Let_def split: sum.splits prod.splits)

lemma updateStatus_keeps_valid:
  assumes "updateStatus e s bug docs = Inr (d, docs')" and "list_all (\<lambda>b. validate b = []) docs"
  shows "list_all (\<lambda>b. validate b = []) docs'"
  using assms save_keeps_valid [OF _ assms(2)]
  by (simp add: updateStatus_def Let_def split: if_splits)

lemma patch_status_store:
  "snd (patch_status e i body docs) = docs \<or>
   (\<exists>bug d1 docs1. updateStatus e (orElse (b_status body) []) bug docs = Inr (d1, docs1) \<and>
      (snd (patch_status e i body docs) = docs1 \<or>
       (\<exists>y d2. save e y docs1 = Inr (d2, snd (patch_status e i body docs)))))"
proof (cases "truthy (b_status body)")
  case False
  then show ?thesis by (simp add: patch_status_def)
next
  case t: True
  show ?thesis
  proof (cases "findById e i docs")
    case (Inl err)
    then show ?thesis using t by (simp add: patch_status_def)
  next
    case (Inr found)
    show ?thesis
    proof (cases found)
      case None
      then show ?thesis using t Inr by (simp add: patch_status_def)
    next
      case (Some bug)
      show ?thesis
      proof (cases "updateStatus e (orElse (b_status body) []) bug docs")
        case (Inl err)
        then show ?thesis using t Inr Some by (simp add: patch_status_def Let_def)
      next
        case u: (Inr r1)
        obtain bug1 docs1 where r1: "r1 = (bug1, docs1)" by (cases r1)
        let ?bug2 = "bug1\<lparr>statusHistory := statusHistory bug1 @
                         [castHistoryEntry \<lparr>h_from = Some (status bug),
                            h_to = orElse (b_status body) [],
                            h_by = Some (orElse (b_by body) ''system''),
                            h_at = now e, h_reason = b_reason body\<rparr>]\<rparr>"
        show ?thesis
        proof (cases "save e ?bug2 docs1")
          case (Inl err)
          then have "snd (patch_status e i body docs) = docs1"
            using t Inr Some u r1 by (simp add: patch_status_def Let_def)
          then show ?thesis using u r1 by blast
        next
          case s: (Inr r2)
          obtain bug3 docs2 where r2: "r2 = (bug3, docs2)" by (cases r2)
          have "snd (patch_status e i body docs) = docs2"
            using t Inr Some u r1 s r2 by (simp add: patch_status_def Let_def)
          then have "save e ?bug2 docs1 = Inr (bug3, snd (patch_status e i body docs))"
            using s r2 by simp
          then show ?thesis using u r1 by blast
        qed
      qed
    qed
  qed
qed

lemma patch_status_keeps_valid:
  assumes "list_all (\<lambda>b. validate b = []) docs"
  shows "list_all (\<lambda>b. validate b = []) (snd (patch_status e i body docs))"
  using patch_status_store [of e i body docs] assms
  by (auto dest: updateStatus_keeps_valid save_keeps_valid)

lemma post_comment_keeps_valid:
  assumes "list_all (\<lambda>b. validate b = []) docs"
  shows "list_all (\<lambda>b. validate b = []) (snd (post_comment e i body docs))"
  using assms save_keeps_valid [OF _ assms]
  by (simp add: post_comment_def addComment_def split: sum.splits option.splits prod.splits)

lemma delete_bug_keeps_valid:
  assumes "list_all (\<lambda>b. validate b = []) docs"
  shows "list_all (\<lambda>b. validate b = []) (snd (delete_bug e i docs))"
  using assms
  by (auto simp add: delete_bug_def findByIdAndDelete_def list_all_iff
      split: sum.splits option.splits prod.splits if_splits)

lemma findByIdAndUpdate_keeps_valid:
  assumes "findByIdAndUpdate e i u docs = Inr (r, docs')" and "list_all (\<lambda>b. validate b = []) docs"
  shows "list_all (\<lambda>b. validate b = []) docs'"
proof -
  obtain oid where c: "castObjectId e i = Some oid"
    using assms(1) by (cases "castObjectId e i") (simp_all add: findByIdAndUpdate_def)
  have vu: "validateUpdate u = []" using assms(1) c
    by (simp add: findByIdAndUpdate_def split: list.splits)
  show ?thesis
  proof (cases "find (\<lambda>b. bug_id b = oid) docs")
    case None
    then show ?thesis using assms c vu by (simp add: findByIdAndUpdate_def)
  next
    case (Some b)
    then have "b \<in> set docs" using find_id by blast
    then have vb: "validate b = []" using assms(2) by (simp add: list_all_iff)
    have "docs' = map (\<lambda>x. if bug_id x = oid then (doc_set u b)\<lparr>updatedAt := now e\<rparr> else x) docs"
      using assms(1) Some vu c by (simp add: findByIdAndUpdate_def Let_def)
    then show ?thesis
      using assms(2) validate_doc_set [OF vu vb]
      by (auto simp add: list_all_iff validate_updatedAt)
  qed
qed

lemma put_bug_keeps_valid:
  assumes "list_all (\<lambda>b. validate b = []) docs"
  shows "list_all (\<lambda>b. validate b = []) (snd (put_bug e i u docs))"
  using assms save_keeps_valid [OF _ assms] findByIdAndUpdate_keeps_valid [OF _ assms]
  by (simp add: put_bug_def Let_def split: sum.splits option.splits prod.splits)

end
